theory Spec2Isabelle
  imports Main
begin

section \<open>Calls: return value, console output and state after the call\<close>

text \<open>
  Every method of the three modules either returns \<open>None\<close> or raises. A call is
  described by what it returned or raised (\<open>ret\<close>), by what it wrote or delivered
  while running (\<open>out\<close>: the lines given to \<open>print\<close>, or the \<open>update\<close> calls made),
  and by the state of the object afterwards (\<open>post\<close>).
\<close>

datatype py_exception = ValueError string | RuntimeError string

datatype py_result = Returned_None | Raised py_exception

record ('o, 's) call =
  ret :: py_result
  out :: "'o list"
  post :: 's

section \<open>State.py: the order and its three state classes\<close>

datatype OrderState = NewOrderState | FilledOrderState | CancelledOrderState

record Order =
  state :: OrderState

text \<open>\<open>Order.__init__\<close>: a fresh order is in \<open>NewOrderState\<close>.\<close>

definition Order_init :: Order where
  "Order_init = \<lparr>state = NewOrderState\<rparr>"

definition set_state :: "Order \<Rightarrow> OrderState \<Rightarrow> Order" where
  "set_state order s = order\<lparr>state := s\<rparr>"

text \<open>
  The method \<open>process\<close> of the three state classes, selected by the class of the
  receiver: each prints one line, and \<open>NewOrderState\<close> moves the order on.
\<close>

fun OrderState_process :: "OrderState \<Rightarrow> Order \<Rightarrow> (string, Order) call" where
  "OrderState_process NewOrderState order =
     \<lparr>ret = Returned_None, out = [''Processing new order.''],
      post = set_state order FilledOrderState\<rparr>"
| "OrderState_process FilledOrderState order =
     \<lparr>ret = Returned_None, out = [''Order already filled.''], post = order\<rparr>"
| "OrderState_process CancelledOrderState order =
     \<lparr>ret = Returned_None, out = [''Cannot process a cancelled order.''], post = order\<rparr>"

text \<open>The method \<open>cancel\<close> of the three state classes.\<close>

fun OrderState_cancel :: "OrderState \<Rightarrow> Order \<Rightarrow> (string, Order) call" where
  "OrderState_cancel NewOrderState order =
     \<lparr>ret = Returned_None, out = [''Cancelling new order.''],
      post = set_state order CancelledOrderState\<rparr>"
| "OrderState_cancel FilledOrderState order =
     \<lparr>ret = Returned_None, out = [''Cancelling filled order.''],
      post = set_state order CancelledOrderState\<rparr>"
| "OrderState_cancel CancelledOrderState order =
     \<lparr>ret = Returned_None, out = [''Order already cancelled.''], post = order\<rparr>"

text \<open>\<open>Order.process\<close> and \<open>Order.cancel\<close> delegate to the current state object.\<close>

definition process :: "Order \<Rightarrow> (string, Order) call" where
  "process order = OrderState_process (state order) order"

definition cancel :: "Order \<Rightarrow> (string, Order) call" where
  "cancel order = OrderState_cancel (state order) order"

text \<open>
  The two requests a client can send to an order (the specification calls
  \<open>process\<close> the event \<open>fill\<close>), and a client that sends a sequence of them.
\<close>

datatype event = Fill | Cancel

fun send :: "event \<Rightarrow> Order \<Rightarrow> (string, Order) call" where
  "send Fill order = process order"
| "send Cancel order = cancel order"

fun send_all :: "event list \<Rightarrow> Order \<Rightarrow> Order" where
  "send_all [] order = order"
| "send_all (e # es) order = send_all es (post (send e order))"

subsection \<open>The transition table of the specification\<close>

text \<open>
  The worked example of the specification, written from its words and not from the
  code: the outcome of an event at a tag is a move to a next tag or a rejection with
  a reason.
\<close>

datatype reason = UnknownEvent | TerminalState

datatype outcome = Moved OrderState | Rejected reason

fun TransitionTable :: "OrderState \<Rightarrow> event \<Rightarrow> outcome" where
  "TransitionTable NewOrderState Fill = Moved FilledOrderState"
| "TransitionTable NewOrderState Cancel = Moved CancelledOrderState"
| "TransitionTable FilledOrderState Cancel = Moved CancelledOrderState"
| "TransitionTable FilledOrderState Fill = Rejected UnknownEvent"
| "TransitionTable CancelledOrderState e = Rejected TerminalState"

text \<open>One step of the fold over the table: a rejected entry leaves the tag where it was.\<close>

definition table_step :: "OrderState \<Rightarrow> event \<Rightarrow> OrderState" where
  "table_step tag e = (case TransitionTable tag e of Moved tag' \<Rightarrow> tag' | Rejected r \<Rightarrow> tag)"

definition table_fold :: "OrderState \<Rightarrow> event list \<Rightarrow> OrderState" where
  "table_fold tag es = foldl table_step tag es"

section \<open>Memento.py: the account, its mementos and the caretaker\<close>

text \<open>
  A memento holds the balance it was created with. Balances and amounts are Python
  integers, which are immutable: a reference to one cannot be told from its value, so
  the field holds the value.
\<close>

datatype Memento = Memento int

fun get_saved_state :: "Memento \<Rightarrow> int" where
  "get_saved_state (Memento b) = b"

record Account =
  balance :: int

definition Account_init :: Account where
  "Account_init = \<lparr>balance = 0\<rparr>"

definition deposit :: "Account \<Rightarrow> int \<Rightarrow> (string, Account) call" where
  "deposit acct amount =
     \<lparr>ret = Returned_None, out = [], post = acct\<lparr>balance := balance acct + amount\<rparr>\<rparr>"

definition withdraw :: "Account \<Rightarrow> int \<Rightarrow> (string, Account) call" where
  "withdraw acct amount =
     (if amount > balance acct
      then \<lparr>ret = Raised (ValueError ''Insufficient funds''), out = [], post = acct\<rparr>
      else \<lparr>ret = Returned_None, out = [],
            post = acct\<lparr>balance := balance acct - amount\<rparr>\<rparr>)"

definition get_balance :: "Account \<Rightarrow> int" where
  "get_balance acct = balance acct"

definition save_state :: "Account \<Rightarrow> Memento" where
  "save_state acct = Memento (balance acct)"

definition restore_state :: "Account \<Rightarrow> Memento \<Rightarrow> Account" where
  "restore_state acct memento = acct\<lparr>balance := get_saved_state memento\<rparr>"

text \<open>
  The caretaker keeps a reference to the account and a list of mementos; the client
  keeps a reference to the same account and calls \<open>deposit\<close> and \<open>withdraw\<close> on it.
  The one account object both refer to is the field \<open>account\<close>. \<open>save\<close> appends to
  the list, \<open>undo\<close> pops its last element.
\<close>

record Caretaker =
  account :: Account
  history :: "Memento list"

definition Caretaker_init :: "Account \<Rightarrow> Caretaker" where
  "Caretaker_init acct = \<lparr>account = acct, history = []\<rparr>"

definition save :: "Caretaker \<Rightarrow> (string, Caretaker) call" where
  "save c =
     \<lparr>ret = Returned_None, out = [],
      post = c\<lparr>history := history c @ [save_state (account c)]\<rparr>\<rparr>"

definition undo :: "Caretaker \<Rightarrow> (string, Caretaker) call" where
  "undo c =
     (if history c = []
      then \<lparr>ret = Returned_None, out = [''No states to restore''], post = c\<rparr>
      else let memento = last (history c)
           in \<lparr>ret = Returned_None, out = [],
               post = \<lparr>account = restore_state (account c) memento,
                       history = butlast (history c)\<rparr>\<rparr>)"

text \<open>A call the client makes on the account it shares with the caretaker.\<close>

definition on_account ::
  "(Account \<Rightarrow> (string, Account) call) \<Rightarrow> Caretaker \<Rightarrow> (string, Caretaker) call" where
  "on_account f c =
     (let r = f (account c) in \<lparr>ret = ret r, out = out r, post = c\<lparr>account := post r\<rparr>\<rparr>)"

text \<open>
  The client code: a script of calls. \<open>session\<close> lists the calls of a script as they
  are made; an exception nobody catches ends the script. \<open>perform_all\<close> is the state
  after a script whose client catches what is raised and goes on.
\<close>

datatype request = Deposit int | Withdraw int | Save | Undo

fun perform :: "request \<Rightarrow> Caretaker \<Rightarrow> (string, Caretaker) call" where
  "perform (Deposit amount) c = on_account (\<lambda>acct. deposit acct amount) c"
| "perform (Withdraw amount) c = on_account (\<lambda>acct. withdraw acct amount) c"
| "perform Save c = save c"
| "perform Undo c = undo c"

fun session :: "request list \<Rightarrow> Caretaker \<Rightarrow> (string, Caretaker) call list" where
  "session [] c = []"
| "session (q # qs) c =
     (let r = perform q c
      in r # (case ret r of Returned_None \<Rightarrow> session qs (post r) | Raised e \<Rightarrow> []))"

fun perform_all :: "request list \<Rightarrow> Caretaker \<Rightarrow> Caretaker" where
  "perform_all [] c = c"
| "perform_all (q # qs) c = perform_all qs (post (perform q c))"

fun is_mutation :: "request \<Rightarrow> bool" where
  "is_mutation (Deposit amount) = True"
| "is_mutation (Withdraw amount) = True"
| "is_mutation Save = False"
| "is_mutation Undo = False"

text \<open>
  The client code of the module (its \<open>__main__\<close> block, without the prints), followed
  by a third \<open>undo\<close>: scenario B of the specification.
\<close>

definition scenario_B :: "request list" where
  "scenario_B =
     [Deposit 100, Save, Deposit 50, Withdraw 30, Save, Withdraw 100, Undo, Undo, Undo]"

section \<open>Observer.py: the weather data and its observers\<close>

text \<open>
  An observer is an object; \<open>in\<close> and \<open>remove\<close> compare observers by identity, which
  is a number here. What an observer's \<open>update\<close> does is not part of \<open>WeatherData\<close>:
  it is a parameter \<open>upd\<close>, giving for each observer the \<open>attach\<close> and \<open>detach\<close>
  calls its \<open>update\<close> makes on the subject, in order, and whether it raises. The
  two displays of the module only print: their \<open>update\<close> makes no such call.
\<close>

type_synonym observer = nat

datatype action = Attach observer | Detach observer | Raise py_exception

record WeatherData =
  observers :: "observer list"
  temperature :: int

definition WeatherData_init :: WeatherData where
  "WeatherData_init = \<lparr>observers = [], temperature = 0\<rparr>"

definition attach :: "WeatherData \<Rightarrow> observer \<Rightarrow> WeatherData" where
  "attach w ob =
     (if ob \<notin> set (observers w) then w\<lparr>observers := observers w @ [ob]\<rparr> else w)"

definition detach :: "WeatherData \<Rightarrow> observer \<Rightarrow> WeatherData" where
  "detach w ob =
     (if ob \<in> set (observers w) then w\<lparr>observers := remove1 ob (observers w)\<rparr> else w)"

text \<open>The body of one \<open>update\<close>: its calls run in order, a raise ends it.\<close>

fun update :: "action list \<Rightarrow> WeatherData \<Rightarrow> py_result \<times> WeatherData" where
  "update [] w = (Returned_None, w)"
| "update (Attach ob # as) w = update as (attach w ob)"
| "update (Detach ob # as) w = update as (detach w ob)"
| "update (Raise e # as) w = (Raised e, w)"





section \<open>Properties of the order\<close>

lemma state_post_send: "state (post (send e order)) = table_step (state order) e"
  by (cases e; cases "state order")
     (simp_all add: process_def cancel_def set_state_def table_step_def)

lemma state_send_all: "state (send_all es order) = table_fold (state order) es"
  by (induction es arbitrary: order) (simp_all add: table_fold_def state_post_send)

text \<open>
  Claim C1. Whatever finite sequence of fill (process) and cancel requests is sent to
  an order created in \<open>NewOrderState\<close>, the state it ends in is the fold of the
  specification's transition table over that sequence, started at \<open>New\<close>, where a
  rejected entry leaves the tag where it was.
\<close>

theorem order_follows_transition_table:
  "state (send_all es Order_init) = table_fold NewOrderState es"
  by (simp add: state_send_all Order_init_def)

text \<open>
  Claim C3, as stated, asks for a returned signal that carries the reason of a
  rejection. \<open>process\<close> returns \<open>None\<close> whether the request is rejected (a cancelled or
  a filled order) or accepted (a new order), and for either reason: nothing can be
  read from the returned value.
\<close>

theorem rejected_returns_like_accepted:
  "ret (send Fill \<lparr>state = CancelledOrderState\<rparr>) = ret (send Fill \<lparr>state = NewOrderState\<rparr>)
   \<and> ret (send Fill \<lparr>state = FilledOrderState\<rparr>) = ret (send Fill \<lparr>state = CancelledOrderState\<rparr>)
   \<and> ret (send Fill \<lparr>state = CancelledOrderState\<rparr>) = Returned_None"
  by (simp add: process_def)

text \<open>
  Claim C3, amended. For every order and every event that the transition table
  rejects (any event at \<open>Cancelled\<close>, fill at \<open>Filled\<close>), the call leaves the order as it
  was, raises nothing and returns \<open>None\<close>; the rejection is reported by one printed
  line, which is ``Order already filled.'' for the reason \<open>UnknownEvent\<close> and
  ``Cannot process a cancelled order.'' or ``Order already cancelled.'' for the
  reason \<open>TerminalState\<close>. An order has no observers: nothing is notified.
\<close>

theorem rejected_event_leaves_order:
  assumes "TransitionTable (state order) e = Rejected r"
  shows "post (send e order) = order \<and> ret (send e order) = Returned_None
     \<and> out (send e order) =
         [if r = UnknownEvent then ''Order already filled.''
          else if e = Fill then ''Cannot process a cancelled order.''
          else ''Order already cancelled.'']"
  using assms by (cases e; cases "state order") (auto simp: process_def cancel_def)

text \<open>The amended claim C3 at a cancelled order that is asked to fill.\<close>

theorem rejected_event_leaves_order_witness:
  "TransitionTable (state \<lparr>state = CancelledOrderState\<rparr>) Fill = Rejected TerminalState
   \<and> post (send Fill \<lparr>state = CancelledOrderState\<rparr>) = \<lparr>state = CancelledOrderState\<rparr>
   \<and> ret (send Fill \<lparr>state = CancelledOrderState\<rparr>) = Returned_None
   \<and> out (send Fill \<lparr>state = CancelledOrderState\<rparr>) = [''Cannot process a cancelled order.'']"
  using rejected_event_leaves_order [of "\<lparr>state = CancelledOrderState\<rparr>" Fill TerminalState]
  by simp

section \<open>Properties of the account and the caretaker\<close>

text \<open>
  Claim C2, as stated, has the third \<open>undo\<close> of scenario B report \<open>EmptyHistory\<close>.
  The three undos of the scenario return the same value, \<open>None\<close>: the third, which
  finds the history empty, returns what the two that restore a balance return.
\<close>

theorem third_undo_returns_like_the_others:
  "map ret (drop 6 (session scenario_B (Caretaker_init Account_init)))
     = [Returned_None, Returned_None, Returned_None]"
  by (simp add: scenario_B_def Caretaker_init_def Account_init_def on_account_def deposit_def
      withdraw_def save_def undo_def save_state_def restore_state_def Let_def)

text \<open>
  Claim C2, amended. Scenario B, call by call: the balances after the nine calls are
  100, 100 (save), 150, 120, 120 (save), 20, then 120 and 100 after the first two
  undos and 100 after the third; every call returns \<open>None\<close> and none raises; the
  third undo, which finds the history empty, prints ``No states to restore'', and no
  other call prints anything.
\<close>

theorem scenario_B_balances:
  "map (\<lambda>r. get_balance (account (post r))) (session scenario_B (Caretaker_init Account_init))
     = [100, 100, 150, 120, 120, 20, 120, 100, 100]
   \<and> map ret (session scenario_B (Caretaker_init Account_init)) = replicate 9 Returned_None
   \<and> map out (session scenario_B (Caretaker_init Account_init))
     = [[], [], [], [], [], [], [], [], [''No states to restore'']]"
  by (simp add: scenario_B_def Caretaker_init_def Account_init_def on_account_def deposit_def
      withdraw_def save_def undo_def save_state_def restore_state_def get_balance_def Let_def
      numeral_eq_Suc)

text \<open>
  Claim C4, as stated, has \<open>undo\<close> return \<open>EmptyHistory\<close> when there is nothing to
  restore. \<open>undo\<close> returns \<open>None\<close> on an empty history exactly as it does after a
  successful restore.
\<close>

theorem undo_returns_none_either_way:
  "ret (undo \<lparr>account = \<lparr>balance = 7\<rparr>, history = []\<rparr>) = Returned_None
   \<and> ret (undo \<lparr>account = \<lparr>balance = 7\<rparr>, history = [Memento 3]\<rparr>) = Returned_None"
  by (simp add: undo_def)

text \<open>
  Claim C4, amended. On an empty history \<open>undo\<close> prints ``No states to restore'',
  returns \<open>None\<close> and leaves the account and the history exactly as they were. On a
  history that ends in a memento \<open>m\<close> it pops \<open>m\<close>, keeps the earlier mementos, sets
  the balance to the value saved in \<open>m\<close>, prints nothing and returns \<open>None\<close>.
\<close>

theorem undo_pops_or_reports:
  "(history c = [] \<longrightarrow>
      undo c = \<lparr>ret = Returned_None, out = [''No states to restore''], post = c\<rparr>)
   \<and> (history c = hs @ [m] \<longrightarrow>
      ret (undo c) = Returned_None \<and> out (undo c) = []
      \<and> get_balance (account (post (undo c))) = get_saved_state m
      \<and> history (post (undo c)) = hs)"
  by (simp add: undo_def restore_state_def get_balance_def)

text \<open>The amended claim C4 on an empty history and on a history of two mementos.\<close>

theorem undo_pops_or_reports_witness:
  "undo \<lparr>account = \<lparr>balance = 7\<rparr>, history = []\<rparr>
     = \<lparr>ret = Returned_None, out = [''No states to restore''],
        post = \<lparr>account = \<lparr>balance = 7\<rparr>, history = []\<rparr>\<rparr>
   \<and> get_balance (account (post (undo \<lparr>account = \<lparr>balance = 7\<rparr>,
        history = [Memento 1, Memento 3]\<rparr>))) = 3
   \<and> history (post (undo \<lparr>account = \<lparr>balance = 7\<rparr>, history = [Memento 1, Memento 3]\<rparr>))
     = [Memento 1]"
  using undo_pops_or_reports [of "\<lparr>account = \<lparr>balance = 7\<rparr>, history = []\<rparr>"]
    undo_pops_or_reports [of "\<lparr>account = \<lparr>balance = 7\<rparr>, history = [Memento 1, Memento 3]\<rparr>"
      "[Memento 1]" "Memento 3"]
  by simp

lemma history_post_mutation: "is_mutation q \<Longrightarrow> history (post (perform q c)) = history c"
  by (cases q) (simp_all add: on_account_def Let_def)

lemma history_perform_all:
  "\<forall>q\<in>set qs. is_mutation q \<Longrightarrow> history (perform_all qs c) = history c"
  by (induction qs arbitrary: c) (simp_all add: history_post_mutation)

text \<open>
  Claim C5. After \<open>save\<close>, no sequence of deposits and withdrawals on the live
  account (whether they succeed or raise) changes the memento that was captured or
  the mementos before it; restoring it gives back the balance that was saved, and
  the history that was there before the save.
\<close>

theorem snapshot_kept_by_value:
  assumes "\<forall>q\<in>set qs. is_mutation q"
  shows "history (perform_all qs (post (save c))) = history c @ [Memento (balance (account c))]
     \<and> get_balance (account (post (undo (perform_all qs (post (save c))))))
         = get_balance (account c)
     \<and> history (post (undo (perform_all qs (post (save c))))) = history c"
proof -
  have "history (perform_all qs (post (save c))) = history c @ [Memento (balance (account c))]"
    using assms by (simp add: history_perform_all save_def save_state_def)
  then show ?thesis
    by (simp add: undo_def restore_state_def get_balance_def)
qed

text \<open>
  Claim C5 at a balance of 100 that is saved, then credited 50, overdrawn (the
  withdrawal of 500 raises) and debited 30: the live balance is 120, the memento
  still holds 100, and undo restores 100.
\<close>

theorem snapshot_kept_by_value_witness:
  "history (perform_all [Deposit 50, Withdraw 500, Withdraw 30]
      (post (save \<lparr>account = \<lparr>balance = 100\<rparr>, history = []\<rparr>))) = [Memento 100]
   \<and> get_balance (account (perform_all [Deposit 50, Withdraw 500, Withdraw 30]
      (post (save \<lparr>account = \<lparr>balance = 100\<rparr>, history = []\<rparr>)))) = 120
   \<and> get_balance (account (post (undo (perform_all [Deposit 50, Withdraw 500, Withdraw 30]
      (post (save \<lparr>account = \<lparr>balance = 100\<rparr>, history = []\<rparr>)))))) = 100"
  using snapshot_kept_by_value [of "[Deposit 50, Withdraw 500, Withdraw 30]"
      "\<lparr>account = \<lparr>balance = 100\<rparr>, history = []\<rparr>"]
  by (simp add: on_account_def deposit_def withdraw_def save_def save_state_def get_balance_def)

text \<open>
  Claim C10. \<open>withdraw\<close> raises exactly when the amount is strictly greater than the
  balance; what it raises is \<open>ValueError\<close> ``Insufficient funds'', and the account is
  then unchanged. An amount up to the balance, the whole balance included, is
  withdrawn: the call returns and the new balance is the old one less the amount.
\<close>

theorem withdraw_raises_iff_overdrawn:
  "((\<exists>e. ret (withdraw acct amount) = Raised e) \<longleftrightarrow> amount > balance acct)
   \<and> (amount > balance acct \<longrightarrow>
        withdraw acct amount
          = \<lparr>ret = Raised (ValueError ''Insufficient funds''), out = [], post = acct\<rparr>)
   \<and> (amount \<le> balance acct \<longrightarrow>
        ret (withdraw acct amount) = Returned_None
        \<and> balance (post (withdraw acct amount)) = balance acct - amount)"
  by (simp add: withdraw_def)

text \<open>Claim C10 at a balance of 3: withdrawing 5 raises, withdrawing 3 leaves 0.\<close>

theorem withdraw_raises_iff_overdrawn_witness:
  "withdraw \<lparr>balance = 3\<rparr> 5
     = \<lparr>ret = Raised (ValueError ''Insufficient funds''), out = [], post = \<lparr>balance = 3\<rparr>\<rparr>
   \<and> ret (withdraw \<lparr>balance = 3\<rparr> 3) = Returned_None
   \<and> balance (post (withdraw \<lparr>balance = 3\<rparr> 3)) = 0"
  using withdraw_raises_iff_overdrawn [of "\<lparr>balance = 3\<rparr>" 5]
    withdraw_raises_iff_overdrawn [of "\<lparr>balance = 3\<rparr>" 3]
  by simp

section \<open>How the operations signal what they refuse\<close>

text \<open>
  Claim C9, as stated, has no operation raise for an expected condition and has the
  condition signalled by the returned value. A withdrawal beyond the balance raises
  \<open>ValueError\<close>; \<open>process\<close> on a cancelled order returns what it returns on a new
  one, and \<open>undo\<close> on an empty history what it returns on a non-empty one.
\<close>

theorem expected_conditions_not_returned:
  "ret (withdraw Account_init 1) = Raised (ValueError ''Insufficient funds'')
   \<and> ret (process \<lparr>state = CancelledOrderState\<rparr>) = ret (process \<lparr>state = NewOrderState\<rparr>)
   \<and> ret (undo (Caretaker_init Account_init))
       = ret (undo \<lparr>account = Account_init, history = [Memento 0]\<rparr>)"
  by (simp add: withdraw_def Account_init_def process_def undo_def Caretaker_init_def)

text \<open>
  Claim C9, amended. \<open>Order.process\<close>, \<open>Order.cancel\<close> and \<open>Caretaker.undo\<close> never
  raise, in any state and on any history: they return \<open>None\<close>, and a rejected event
  or an empty history is reported by a printed line, the order being left as it was.
  \<open>Account.withdraw\<close> does raise: \<open>ValueError\<close> when the amount exceeds the balance.
\<close>

theorem order_and_caretaker_never_raise:
  "ret (send e order) = Returned_None
   \<and> ret (undo c) = Returned_None
   \<and> (history c = [] \<longrightarrow> out (undo c) = [''No states to restore''])
   \<and> (TransitionTable (state order) e = Rejected r \<longrightarrow>
        out (send e order) \<noteq> [] \<and> post (send e order) = order)
   \<and> (amount > balance acct \<longrightarrow>
        ret (withdraw acct amount) = Raised (ValueError ''Insufficient funds''))"
  by (cases e; cases "state order")
     (simp_all add: process_def cancel_def undo_def withdraw_def Let_def)

text \<open>
  The amended claim C9 at a cancelled order asked to fill, an empty history and an
  empty account asked for 1.
\<close>

theorem order_and_caretaker_never_raise_witness:
  "ret (send Fill \<lparr>state = CancelledOrderState\<rparr>) = Returned_None
   \<and> out (send Fill \<lparr>state = CancelledOrderState\<rparr>) \<noteq> []
   \<and> post (send Fill \<lparr>state = CancelledOrderState\<rparr>) = \<lparr>state = CancelledOrderState\<rparr>
   \<and> ret (undo \<lparr>account = \<lparr>balance = 0\<rparr>, history = []\<rparr>) = Returned_None
   \<and> out (undo \<lparr>account = \<lparr>balance = 0\<rparr>, history = []\<rparr>) = [''No states to restore'']
   \<and> ret (withdraw \<lparr>balance = 0\<rparr> 1) = Raised (ValueError ''Insufficient funds'')"
  using order_and_caretaker_never_raise [where e = Fill
      and order = "\<lparr>state = CancelledOrderState\<rparr>"
      and c = "\<lparr>account = \<lparr>balance = 0\<rparr>, history = []\<rparr>"
      and r = TerminalState and amount = 1 and acct = "\<lparr>balance = 0\<rparr>"]
  by simp

section \<open>Properties of the weather data\<close>

subsection \<open>The registry never holds an observer twice\<close>

lemma distinct_init: "distinct (observers WeatherData_init)"
  by (simp add: WeatherData_init_def)

lemma distinct_attach: "distinct (observers w) \<Longrightarrow> distinct (observers (attach w ob))"
  by (simp add: attach_def)

lemma distinct_detach: "distinct (observers w) \<Longrightarrow> distinct (observers (detach w ob))"
  by (simp add: detach_def)

lemma distinct_update: "distinct (observers w) \<Longrightarrow> distinct (observers (snd (update as w)))"
  by (induction as w rule: update.induct) (simp_all add: distinct_attach distinct_detach)






subsection \<open>The loop over quiet observers\<close>




subsection \<open>Attaching twice\<close>




subsection \<open>Observers that change the registry while they are notified\<close>




subsection \<open>Observers that raise\<close>




end
